theory Spec2Isabelle
  imports Main "HOL-Library.AList"
begin

section \<open>JavaScript values and the native Map\<close>

text \<open>
  The type parameters \<open>K\<close> and \<open>V\<close> of \<open>BidirectionalMap<K, V>\<close> are unconstrained, so
  a key or a value may be the JavaScript value \<open>undefined\<close>. A value of the model is
  therefore either \<open>Undefined\<close> or a proper datum. HOL equality on \<open>'a\<close> stands for the
  SameValueZero comparison a native Map applies to its keys, and a comparison
  \<open>x === undefined\<close> of the source is \<open>x = Undefined\<close>.
\<close>

datatype 'a jsval = Undefined | Defined 'a

text \<open>
  A native \<open>Map\<close> is the list of its entries in insertion order. Every native Map holds
  a key at most once (\<open>Map_wf\<close>). \<open>Map.prototype.set\<close> overwrites the value of a key in
  place and appends a new key at the end; \<open>Map.prototype.delete\<close> removes the entry of a
  key, keeps the order of the others and reports whether an entry was there;
  \<open>Map.prototype.get\<close> returns \<open>undefined\<close> for a key that has no entry.
\<close>

type_synonym ('a, 'b) Map = "('a \<times> 'b) list"

definition Map_wf :: "('a, 'b) Map \<Rightarrow> bool" where
  "Map_wf m = distinct (map fst m)"

definition Map_has :: "('a, 'b) Map \<Rightarrow> 'a \<Rightarrow> bool" where
  "Map_has m k = (map_of m k \<noteq> None)"

definition Map_get :: "('a, 'b jsval) Map \<Rightarrow> 'a \<Rightarrow> 'b jsval" where
  "Map_get m k = (case map_of m k of None \<Rightarrow> Undefined | Some v \<Rightarrow> v)"

definition Map_set :: "('a, 'b) Map \<Rightarrow> 'a \<Rightarrow> 'b \<Rightarrow> ('a, 'b) Map" where
  "Map_set m k v = AList.update k v m"

definition Map_delete :: "('a, 'b) Map \<Rightarrow> 'a \<Rightarrow> bool \<times> ('a, 'b) Map" where
  "Map_delete m k = (Map_has m k, AList.delete k m)"

definition Map_clear :: "('a, 'b) Map \<Rightarrow> ('a, 'b) Map" where
  "Map_clear m = []"

definition Map_size :: "('a, 'b) Map \<Rightarrow> nat" where
  "Map_size m = length m"

section \<open>The bidirectional map\<close>

text \<open>
  \<open>class BidirectionalMap<K, V> extends Map<K, V>\<close> with the private field
  \<open>#reverseMap\<close>: the object is its inherited entries (\<open>forwardMap\<close>, what \<open>super\<close>
  reads and writes) and the reverse map. A method that mutates the object returns the
  new object; a method with a result returns the pair of the result and the new object.
\<close>

record ('k, 'v) BidirectionalMap =
  forwardMap :: "('k jsval, 'v jsval) Map"
  reverseMap :: "('v jsval, 'k jsval) Map"

definition empty_bm :: "('k, 'v) BidirectionalMap" where
  "empty_bm = \<lparr>forwardMap = [], reverseMap = []\<rparr>"

text \<open>Inherited from \<open>Map\<close> without override: \<open>size\<close>, \<open>get\<close>, \<open>has\<close>.\<close>

definition size_bm :: "('k, 'v) BidirectionalMap \<Rightarrow> nat" where
  "size_bm this = Map_size (forwardMap this)"

definition get_bm :: "('k, 'v) BidirectionalMap \<Rightarrow> 'k jsval \<Rightarrow> 'v jsval" where
  "get_bm this key = Map_get (forwardMap this) key"

definition has_bm :: "('k, 'v) BidirectionalMap \<Rightarrow> 'k jsval \<Rightarrow> bool" where
  "has_bm this key = Map_has (forwardMap this) key"

definition clear_bm :: "('k, 'v) BidirectionalMap \<Rightarrow> ('k, 'v) BidirectionalMap" where
  "clear_bm this =
     (let this1 = this\<lparr>forwardMap := Map_clear (forwardMap this)\<rparr>
      in this1\<lparr>reverseMap := Map_clear (reverseMap this1)\<rparr>)"

definition set_bm ::
  "('k, 'v) BidirectionalMap \<Rightarrow> 'k jsval \<Rightarrow> 'v jsval \<Rightarrow> ('k, 'v) BidirectionalMap" where
  "set_bm this key value =
     (let oldValue = Map_get (forwardMap this) key;
          this1 = (if oldValue \<noteq> Undefined
                   then this\<lparr>reverseMap := snd (Map_delete (reverseMap this) oldValue)\<rparr>
                   else this);
          oldKey = Map_get (reverseMap this1) value;
          this2 = (if oldKey \<noteq> Undefined
                   then this1\<lparr>forwardMap := snd (Map_delete (forwardMap this1) oldKey)\<rparr>
                   else this1);
          this3 = this2\<lparr>forwardMap := Map_set (forwardMap this2) key value\<rparr>
      in this3\<lparr>reverseMap := Map_set (reverseMap this3) value key\<rparr>)"

definition getReverse :: "('k, 'v) BidirectionalMap \<Rightarrow> 'v jsval \<Rightarrow> 'k jsval" where
  "getReverse this value = Map_get (reverseMap this) value"

definition delete_bm ::
  "('k, 'v) BidirectionalMap \<Rightarrow> 'k jsval \<Rightarrow> bool \<times> ('k, 'v) BidirectionalMap" where
  "delete_bm this key =
     (let value = Map_get (forwardMap this) key
      in if value = Undefined then (False, this)
         else (let this1 = this\<lparr>reverseMap := snd (Map_delete (reverseMap this) value)\<rparr>;
                   r = Map_delete (forwardMap this1) key
               in (fst r, this1\<lparr>forwardMap := snd r\<rparr>)))"

definition deleteReverse ::
  "('k, 'v) BidirectionalMap \<Rightarrow> 'v jsval \<Rightarrow> bool \<times> ('k, 'v) BidirectionalMap" where
  "deleteReverse this value =
     (let key = Map_get (reverseMap this) value
      in if key = Undefined then (False, this)
         else (let this1 = this\<lparr>forwardMap := snd (Map_delete (forwardMap this) key)\<rparr>;
                   r = Map_delete (reverseMap this1) value
               in (fst r, this1\<lparr>reverseMap := snd r\<rparr>)))"

definition hasReverse :: "('k, 'v) BidirectionalMap \<Rightarrow> 'v jsval \<Rightarrow> bool" where
  "hasReverse this value = Map_has (reverseMap this) value"

text \<open>
  The constructor: \<open>super()\<close> and \<open>new Map()\<close> give the empty object; an iterable that
  is given (not \<open>undefined\<close> or \<open>null\<close>) is walked in order, calling \<open>this.set\<close> on each
  pair.
\<close>

fun constructor_loop ::
  "('k, 'v) BidirectionalMap \<Rightarrow> ('k jsval \<times> 'v jsval) list \<Rightarrow> ('k, 'v) BidirectionalMap" where
  "constructor_loop this [] = this"
| "constructor_loop this ((key, value) # rest) = constructor_loop (set_bm this key value) rest"

definition constructor ::
  "('k jsval \<times> 'v jsval) list option \<Rightarrow> ('k, 'v) BidirectionalMap" where
  "constructor iterable =
     (case iterable of None \<Rightarrow> empty_bm | Some pairs \<Rightarrow> constructor_loop empty_bm pairs)"

section \<open>Sequences of calls and the invariants\<close>

text \<open>
  A call of one of the mutating methods, and a finite sequence of such calls applied to
  an object from left to right (the boolean results of the two removals are dropped).
\<close>

datatype ('k, 'v) operation =
  Set "'k jsval" "'v jsval"
| Delete "'k jsval"
| DeleteReverse "'v jsval"
| Clear

fun apply_operation ::
  "('k, 'v) BidirectionalMap \<Rightarrow> ('k, 'v) operation \<Rightarrow> ('k, 'v) BidirectionalMap" where
  "apply_operation this (Set key value) = set_bm this key value"
| "apply_operation this (Delete key) = snd (delete_bm this key)"
| "apply_operation this (DeleteReverse value) = snd (deleteReverse this value)"
| "apply_operation this Clear = clear_bm this"

fun run ::
  "('k, 'v) BidirectionalMap \<Rightarrow> ('k, 'v) operation list \<Rightarrow> ('k, 'v) BidirectionalMap" where
  "run this [] = this"
| "run this (x # xs) = run (apply_operation this x) xs"

text \<open>
  Invariant I1 as the specification words it: every forward entry \<open>(k, v)\<close> is what
  \<open>get\<close> and \<open>getReverse\<close> answer, and every reverse entry \<open>(v, k)\<close> has its forward
  entry \<open>(k, v)\<close>.
\<close>

definition inverse_maps :: "('k, 'v) BidirectionalMap \<Rightarrow> bool" where
  "inverse_maps this =
     (list_all (\<lambda>(k, v). get_bm this k = v \<and> getReverse this v = k) (forwardMap this) \<and>
      list_all (\<lambda>(v, k). (k, v) \<in> set (forwardMap this)) (reverseMap this))"

text \<open>Invariant I3: both maps hold as many entries as \<open>size\<close> reports.\<close>

definition sizes_agree :: "('k, 'v) BidirectionalMap \<Rightarrow> bool" where
  "sizes_agree this =
     (Map_size (forwardMap this) = Map_size (reverseMap this) \<and>
      Map_size (reverseMap this) = size_bm this)"

text \<open>
  The specification's account of construction: start from the empty container and call
  \<open>set\<close> for each pair in order.
\<close>

definition set_each ::
  "('k, 'v) BidirectionalMap \<Rightarrow> ('k jsval \<times> 'v jsval) list \<Rightarrow> ('k, 'v) BidirectionalMap" where
  "set_each this pairs = foldl (\<lambda>acc (key, value). set_bm acc key value) this pairs"

text \<open>The representation invariant of the two native maps of an object.\<close>

definition wf_bm :: "('k, 'v) BidirectionalMap \<Rightarrow> bool" where
  "wf_bm this = (Map_wf (forwardMap this) \<and> Map_wf (reverseMap this))"

text \<open>
  The two maps are linked: each is the inverse of the other and neither holds
  \<open>undefined\<close> as a key. This is the state the methods keep the object in as long as no
  key and no value passed to \<open>set\<close> is \<open>undefined\<close>.
\<close>

definition linked :: "('k, 'v) BidirectionalMap \<Rightarrow> bool" where
  "linked this =
     (wf_bm this \<and>
      (\<forall>k v. (map_of (forwardMap this) k = Some v) = (map_of (reverseMap this) v = Some k)) \<and>
      map_of (forwardMap this) Undefined = None \<and>
      map_of (reverseMap this) Undefined = None)"

fun defined_operation :: "('k, 'v) operation \<Rightarrow> bool" where
  "defined_operation (Set key value) = (key \<noteq> Undefined \<and> value \<noteq> Undefined)"
| "defined_operation (Delete key) = True"
| "defined_operation (DeleteReverse value) = True"
| "defined_operation Clear = True"

section \<open>Facts about the native Map\<close>

lemmas Map_defs = Map_get_def Map_set_def Map_delete_def Map_has_def Map_size_def Map_clear_def

lemmas bm_defs =
  set_bm_def get_bm_def getReverse_def delete_bm_def deleteReverse_def has_bm_def
  hasReverse_def size_bm_def clear_bm_def empty_bm_def Map_defs Let_def

lemma update_fresh: "k \<notin> fst ` set al \<Longrightarrow> AList.update k v al = al @ [(k, v)]"
  by (induction al) auto

lemma set_delete_distinct:
  "distinct (map fst al) \<Longrightarrow> map_of al k = Some v \<Longrightarrow> set (AList.delete k al) = set al - {(k, v)}"
  by (induction al) (auto simp: rev_image_eqI split: if_splits)

lemma set_reinsert:
  assumes "distinct (map fst al)" "map_of al k = Some v"
  shows "set (AList.update k v (AList.delete k al)) = set al"
proof -
  have "k \<notin> fst ` set (AList.delete k al)" by (rule delete_notin_dom)
  then have "AList.update k v (AList.delete k al) = AList.delete k al @ [(k, v)]"
    by (rule update_fresh)
  moreover have "(k, v) \<in> set al" using assms(2) by (rule map_of_SomeD)
  ultimately show ?thesis using set_delete_distinct[OF assms] by auto
qed

lemma length_reinsert:
  assumes "distinct (map fst al)" "map_of al k = Some v"
  shows "length (AList.update k v (AList.delete k al)) = length al"
proof -
  have d1: "distinct al" using assms(1) by (rule distinct_map[THEN iffD1, THEN conjunct1])
  have "distinct (map fst (AList.update k v (AList.delete k al)))"
    by (intro distinct_update distinct_delete assms(1))
  then have d2: "distinct (AList.update k v (AList.delete k al))"
    by (rule distinct_map[THEN iffD1, THEN conjunct1])
  show ?thesis using distinct_card[OF d1] distinct_card[OF d2] set_reinsert[OF assms] by simp
qed

lemma Map_wf_set: "Map_wf m \<Longrightarrow> Map_wf (Map_set m k v)"
  by (simp add: Map_wf_def Map_set_def distinct_update)

lemma Map_wf_delete: "Map_wf m \<Longrightarrow> Map_wf (snd (Map_delete m k))"
  by (simp add: Map_wf_def Map_delete_def distinct_delete)

section \<open>The methods keep the native maps well formed\<close>

lemma wf_empty_bm: "wf_bm empty_bm"
  by (simp add: wf_bm_def empty_bm_def Map_wf_def)

lemma wf_set_bm: "wf_bm this \<Longrightarrow> wf_bm (set_bm this key value)"
  by (simp add: wf_bm_def set_bm_def Let_def Map_wf_set Map_wf_delete)

lemma wf_delete_bm: "wf_bm this \<Longrightarrow> wf_bm (snd (delete_bm this key))"
  by (simp add: wf_bm_def delete_bm_def Let_def Map_wf_delete)

lemma wf_deleteReverse: "wf_bm this \<Longrightarrow> wf_bm (snd (deleteReverse this value))"
  by (simp add: wf_bm_def deleteReverse_def Let_def Map_wf_delete)

lemma wf_clear_bm: "wf_bm (clear_bm this)"
  by (simp add: wf_bm_def clear_bm_def Let_def Map_clear_def Map_wf_def)

lemma wf_run: "wf_bm this \<Longrightarrow> wf_bm (run this xs)"
proof (induction xs arbitrary: this)
  case Nil
  then show ?case by simp
next
  case (Cons x xs)
  have "wf_bm (apply_operation this x)"
    using Cons.prems by (cases x) (simp_all add: wf_set_bm wf_delete_bm wf_deleteReverse wf_clear_bm)
  then show ?case using Cons.IH by simp
qed

section \<open>What the methods do to the two lookups\<close>

lemma set_bm_lookup:
  "map_of (forwardMap (set_bm this key value)) key = Some value \<and>
   map_of (reverseMap (set_bm this key value)) value = Some key"
  by (simp add: set_bm_def Map_set_def Let_def update_conv')

lemma set_bm_maps:
  "map_of (forwardMap (set_bm this key value)) =
     (let r1 = (case map_of (forwardMap this) key of
                  None \<Rightarrow> map_of (reverseMap this)
                | Some Undefined \<Rightarrow> map_of (reverseMap this)
                | Some v0 \<Rightarrow> (map_of (reverseMap this))(v0 := None))
      in case r1 value of
           None \<Rightarrow> (map_of (forwardMap this))(key \<mapsto> value)
         | Some Undefined \<Rightarrow> (map_of (forwardMap this))(key \<mapsto> value)
         | Some k0 \<Rightarrow> (map_of (forwardMap this))(k0 := None, key \<mapsto> value))"
  "map_of (reverseMap (set_bm this key value)) =
     (case map_of (forwardMap this) key of
        None \<Rightarrow> (map_of (reverseMap this))(value \<mapsto> key)
      | Some Undefined \<Rightarrow> (map_of (reverseMap this))(value \<mapsto> key)
      | Some v0 \<Rightarrow> (map_of (reverseMap this))(v0 := None, value \<mapsto> key))"
  by (simp_all add: set_bm_def Let_def Map_defs update_conv' delete_conv'
      split: option.splits jsval.splits)

lemma delete_bm_maps:
  "map_of (forwardMap (snd (delete_bm this key))) =
     (case map_of (forwardMap this) key of
        None \<Rightarrow> map_of (forwardMap this)
      | Some Undefined \<Rightarrow> map_of (forwardMap this)
      | Some v0 \<Rightarrow> (map_of (forwardMap this))(key := None))"
  "map_of (reverseMap (snd (delete_bm this key))) =
     (case map_of (forwardMap this) key of
        None \<Rightarrow> map_of (reverseMap this)
      | Some Undefined \<Rightarrow> map_of (reverseMap this)
      | Some v0 \<Rightarrow> (map_of (reverseMap this))(v0 := None))"
  by (simp_all add: delete_bm_def Let_def Map_defs delete_conv' split: option.splits jsval.splits)

lemma deleteReverse_maps:
  "map_of (forwardMap (snd (deleteReverse this value))) =
     (case map_of (reverseMap this) value of
        None \<Rightarrow> map_of (forwardMap this)
      | Some Undefined \<Rightarrow> map_of (forwardMap this)
      | Some k0 \<Rightarrow> (map_of (forwardMap this))(k0 := None))"
  "map_of (reverseMap (snd (deleteReverse this value))) =
     (case map_of (reverseMap this) value of
        None \<Rightarrow> map_of (reverseMap this)
      | Some Undefined \<Rightarrow> map_of (reverseMap this)
      | Some k0 \<Rightarrow> (map_of (reverseMap this))(value := None))"
  by (simp_all add: deleteReverse_def Let_def Map_defs delete_conv'
      split: option.splits jsval.splits)

section \<open>The linked state is kept while nothing is \<open>undefined\<close>\<close>

lemma linked_empty: "linked empty_bm"
  by (simp add: linked_def wf_empty_bm) (simp add: empty_bm_def)

lemma linked_clear: "linked (clear_bm this)"
  by (simp add: linked_def wf_clear_bm) (simp add: clear_bm_def Map_clear_def Let_def)

lemma linked_set:
  assumes "linked this" "key \<noteq> Undefined" "value \<noteq> Undefined"
  shows "linked (set_bm this key value)"
proof -
  let ?f = "map_of (forwardMap this)" and ?r = "map_of (reverseMap this)"
  have w: "wf_bm (set_bm this key value)" using assms(1) by (simp add: linked_def wf_set_bm)
  have i: "\<And>k v. (?r v = Some k) = (?f k = Some v)"
    and u: "?f Undefined = None" "?r Undefined = None"
    using assms(1) by (simp_all add: linked_def)
  have fu: "\<And>k. ?f k \<noteq> Some Undefined"
    using i u(2) by (metis option.distinct(1))
  have inj: "\<And>k k' v. ?f k = Some v \<Longrightarrow> ?f k' = Some v \<Longrightarrow> k = k'"
    using i by (metis option.inject)
  have rn: "\<And>v. (?r v = None) = (\<forall>k. ?f k \<noteq> Some v)"
    using i by (metis not_Some_eq)
  show ?thesis
    unfolding linked_def set_bm_maps Let_def
    using w u fu assms(2,3)
    apply (simp add: i rn split: option.splits jsval.splits)
    apply (auto simp: i rn dest: inj)
    done
qed

lemma linked_delete:
  assumes "linked this"
  shows "linked (snd (delete_bm this key))"
proof -
  let ?f = "map_of (forwardMap this)" and ?r = "map_of (reverseMap this)"
  have w: "wf_bm (snd (delete_bm this key))" using assms by (simp add: linked_def wf_delete_bm)
  have i: "\<And>k v. (?r v = Some k) = (?f k = Some v)"
    and u: "?f Undefined = None" "?r Undefined = None"
    using assms by (simp_all add: linked_def)
  have inj: "\<And>k k' v. ?f k = Some v \<Longrightarrow> ?f k' = Some v \<Longrightarrow> k = k'"
    using i by (metis option.inject)
  show ?thesis
    unfolding linked_def delete_bm_maps
    using w u by (auto simp: i split: option.splits jsval.splits dest: inj)
qed

lemma linked_deleteReverse:
  assumes "linked this"
  shows "linked (snd (deleteReverse this value))"
proof -
  let ?f = "map_of (forwardMap this)" and ?r = "map_of (reverseMap this)"
  have w: "wf_bm (snd (deleteReverse this value))"
    using assms by (simp add: linked_def wf_deleteReverse)
  have i: "\<And>k v. (?f k = Some v) = (?r v = Some k)"
    and u: "?f Undefined = None" "?r Undefined = None"
    using assms by (simp_all add: linked_def)
  have inj: "\<And>v v' k. ?r v = Some k \<Longrightarrow> ?r v' = Some k \<Longrightarrow> v = v'"
    using i by (metis option.inject)
  show ?thesis
    unfolding linked_def deleteReverse_maps
    using w u by (auto simp: i split: option.splits jsval.splits dest: inj)
qed

lemma linked_apply:
  "linked this \<Longrightarrow> defined_operation x \<Longrightarrow> linked (apply_operation this x)"
  by (cases x) (simp_all add: linked_set linked_delete linked_deleteReverse linked_clear)

lemma linked_run:
  "linked this \<Longrightarrow> list_all defined_operation xs \<Longrightarrow> linked (run this xs)"
  by (induction xs arbitrary: this) (simp_all add: linked_apply)

lemma linked_inverse_maps:
  assumes "linked this"
  shows "inverse_maps this"
proof -
  have df: "distinct (map fst (forwardMap this))" and dr: "distinct (map fst (reverseMap this))"
    using assms by (simp_all add: linked_def wf_bm_def Map_wf_def)
  have i: "\<And>k v. (map_of (forwardMap this) k = Some v) = (map_of (reverseMap this) v = Some k)"
    using assms by (simp add: linked_def)
  have "get_bm this k = v \<and> getReverse this v = k" if "(k, v) \<in> set (forwardMap this)" for k v
  proof -
    have f: "map_of (forwardMap this) k = Some v" using df that by simp
    then have "map_of (reverseMap this) v = Some k" by (simp add: i)
    then show ?thesis using f by (simp add: get_bm_def getReverse_def Map_get_def)
  qed
  moreover have "(k, v) \<in> set (forwardMap this)" if "(v, k) \<in> set (reverseMap this)" for k v
  proof -
    have "map_of (reverseMap this) v = Some k" using dr that by simp
    then have "map_of (forwardMap this) k = Some v" using i by simp
    then show ?thesis by (rule map_of_SomeD)
  qed
  ultimately show ?thesis by (auto simp: inverse_maps_def list_all_iff)
qed

lemma linked_sizes_agree:
  assumes "linked this"
  shows "sizes_agree this"
proof -
  have df: "distinct (map fst (forwardMap this))" and dr: "distinct (map fst (reverseMap this))"
    using assms by (simp_all add: linked_def wf_bm_def Map_wf_def)
  have i: "\<And>k v. (map_of (forwardMap this) k = Some v) = (map_of (reverseMap this) v = Some k)"
    using assms by (simp add: linked_def)
  have "set (reverseMap this) = prod.swap ` set (forwardMap this)"
  proof (rule set_eqI)
    fix p :: "'b jsval \<times> 'a jsval"
    obtain v k where p: "p = (v, k)" by (cases p)
    have "(v, k) \<in> set (reverseMap this) \<longleftrightarrow> map_of (reverseMap this) v = Some k"
      using dr by simp
    also have "\<dots> \<longleftrightarrow> map_of (forwardMap this) k = Some v" using i by simp
    also have "\<dots> \<longleftrightarrow> (k, v) \<in> set (forwardMap this)" using df by simp
    also have "\<dots> \<longleftrightarrow> (v, k) \<in> prod.swap ` set (forwardMap this)" by force
    finally show "p \<in> set (reverseMap this) \<longleftrightarrow> p \<in> prod.swap ` set (forwardMap this)"
      by (simp add: p)
  qed
  then have "card (set (reverseMap this)) = card (set (forwardMap this))"
    by (simp add: card_image)
  moreover have "distinct (forwardMap this)" "distinct (reverseMap this)"
    using df dr by (simp_all add: distinct_map)
  ultimately have "length (reverseMap this) = length (forwardMap this)"
    by (simp add: distinct_card)
  then show ?thesis by (simp add: sizes_agree_def size_bm_def Map_size_def)
qed

text \<open>
  Without \<open>undefined\<close> among the keys and values that are set, every sequence of calls
  on the empty container ends in a state where I1 and I3 hold.
\<close>

lemma run_defined_invariants:
  assumes "list_all defined_operation xs"
  shows "inverse_maps (run empty_bm xs) \<and> sizes_agree (run empty_bm xs)"
proof -
  have "linked (run empty_bm xs)" using linked_empty assms by (rule linked_run)
  then show ?thesis by (simp add: linked_inverse_maps linked_sizes_agree)
qed

text \<open>
  Right after \<open>set(k, v)\<close> with \<open>v\<close> other than \<open>undefined\<close>, \<open>delete(k)\<close> removes the
  pair, once; right after \<open>set(k, v)\<close> with \<open>k\<close> other than \<open>undefined\<close>,
  \<open>deleteReverse(v)\<close> removes it, once; with both other than \<open>undefined\<close> the two
  removals are the same step.
\<close>

lemma delete_absent: "\<not> has_bm this key \<Longrightarrow> delete_bm this key = (False, this)"
  by (simp add: delete_bm_def has_bm_def Map_has_def Map_get_def)

lemma deleteReverse_absent: "\<not> hasReverse this value \<Longrightarrow> deleteReverse this value = (False, this)"
  by (simp add: deleteReverse_def hasReverse_def Map_has_def Map_get_def)

lemma delete_present_defined:
  assumes "map_of (forwardMap this) key = Some value" "value \<noteq> Undefined"
  shows "delete_bm this key =
           (True, \<lparr>forwardMap = AList.delete key (forwardMap this),
                   reverseMap = AList.delete value (reverseMap this)\<rparr>)"
  using assms by (simp add: delete_bm_def Let_def Map_defs)

lemma deleteReverse_present_defined:
  assumes "map_of (reverseMap this) value = Some key" "key \<noteq> Undefined"
  shows "deleteReverse this value =
           (True, \<lparr>forwardMap = AList.delete key (forwardMap this),
                   reverseMap = AList.delete value (reverseMap this)\<rparr>)"
  using assms by (simp add: deleteReverse_def Let_def Map_defs)

lemma delete_inserted_defined:
  assumes "value \<noteq> Undefined"
  shows "fst (delete_bm (set_bm this key value) key) \<and>
         \<not> has_bm (snd (delete_bm (set_bm this key value) key)) key \<and>
         get_bm (snd (delete_bm (set_bm this key value) key)) key = Undefined \<and>
         \<not> hasReverse (snd (delete_bm (set_bm this key value) key)) value \<and>
         getReverse (snd (delete_bm (set_bm this key value) key)) value = Undefined \<and>
         \<not> fst (delete_bm (snd (delete_bm (set_bm this key value) key)) key)"
proof -
  have f: "map_of (forwardMap (set_bm this key value)) key = Some value"
    using set_bm_lookup[of this key "value"] by simp
  show ?thesis
    unfolding delete_present_defined[OF f assms]
    by (simp add: has_bm_def hasReverse_def get_bm_def getReverse_def delete_bm_def
        Map_has_def Map_get_def delete_conv')
qed

lemma deleteReverse_inserted_defined:
  assumes "key \<noteq> Undefined"
  shows "fst (deleteReverse (set_bm this key value) value) \<and>
         \<not> has_bm (snd (deleteReverse (set_bm this key value) value)) key \<and>
         get_bm (snd (deleteReverse (set_bm this key value) value)) key = Undefined \<and>
         \<not> hasReverse (snd (deleteReverse (set_bm this key value) value)) value \<and>
         getReverse (snd (deleteReverse (set_bm this key value) value)) value = Undefined \<and>
         \<not> fst (deleteReverse (snd (deleteReverse (set_bm this key value) value)) value)"
proof -
  have r: "map_of (reverseMap (set_bm this key value)) value = Some key"
    using set_bm_lookup[of this key "value"] by simp
  show ?thesis
    unfolding deleteReverse_present_defined[OF r assms]
    by (simp add: has_bm_def hasReverse_def get_bm_def getReverse_def deleteReverse_def
        Map_has_def Map_get_def delete_conv')
qed

lemma deleteReverse_eq_delete_defined:
  assumes "key \<noteq> Undefined" "value \<noteq> Undefined"
  shows "deleteReverse (set_bm this key value) value = delete_bm (set_bm this key value) key"
proof -
  have f: "map_of (forwardMap (set_bm this key value)) key = Some value"
    and r: "map_of (reverseMap (set_bm this key value)) value = Some key"
    using set_bm_lookup[of this key "value"] by simp_all
  show ?thesis
    by (simp only: delete_present_defined[OF f assms(2)] deleteReverse_present_defined[OF r assms(1)])
qed

text \<open>A value set under a second key moves to it, when the first key is not \<open>undefined\<close>.\<close>

lemma set_same_value_defined:
  assumes "k1 \<noteq> k2" "k1 \<noteq> Undefined"
  shows "size_bm (set_bm (set_bm empty_bm k1 v) k2 v) = 1 \<and>
         get_bm (set_bm (set_bm empty_bm k1 v) k2 v) k2 = v \<and>
         get_bm (set_bm (set_bm empty_bm k1 v) k2 v) k1 = Undefined \<and>
         \<not> has_bm (set_bm (set_bm empty_bm k1 v) k2 v) k1 \<and>
         getReverse (set_bm (set_bm empty_bm k1 v) k2 v) v = k2"
  using assms by (simp add: bm_defs)

text \<open>
  In a linked state, a \<open>set\<close> whose key has an entry and whose value has an entry under
  another key evicts both and leaves one entry in their place.
\<close>

lemma Map_size_card: "Map_wf m \<Longrightarrow> Map_size m = card (dom (map_of m))"
proof -
  assume "Map_wf m"
  then have "card (set (map fst m)) = length (map fst m)"
    unfolding Map_wf_def by (rule distinct_card)
  then show ?thesis by (simp add: Map_size_def dom_map_of_conv_image_fst)
qed

lemma double_collision_linked:
  assumes "linked this"
    "map_of (forwardMap this) key = Some v0" "map_of (forwardMap this) k0 = Some value" "k0 \<noteq> key"
  shows "size_bm (set_bm this key value) + 1 = size_bm this \<and>
         get_bm (set_bm this key value) key = value \<and>
         getReverse (set_bm this key value) value = key \<and>
         \<not> hasReverse (set_bm this key value) v0 \<and>
         \<not> has_bm (set_bm this key value) k0"
proof -
  let ?f = "map_of (forwardMap this)" and ?r = "map_of (reverseMap this)"
  have i: "\<And>k v. (?f k = Some v) = (?r v = Some k)"
    and u: "?f Undefined = None" "?r Undefined = None"
    and w: "wf_bm this"
    using assms(1) by (simp_all add: linked_def)
  have r0: "?r v0 = Some key" and rv: "?r value = Some k0" using assms(2,3) i by simp_all
  have ne: "v0 \<noteq> value" using r0 rv assms(4) by auto
  have d: "v0 \<noteq> Undefined" "k0 \<noteq> Undefined" using r0 u(2) assms(3) u(1) by auto
  have f': "map_of (forwardMap (set_bm this key value)) = ?f(k0 := None, key \<mapsto> value)"
    using assms(2) rv ne d by (auto simp: set_bm_maps split: jsval.splits)
  have r': "map_of (reverseMap (set_bm this key value)) = ?r(v0 := None, value \<mapsto> key)"
    using assms(2) d by (auto simp: set_bm_maps split: jsval.splits)
  have dm: "dom (?f(k0 := None, key \<mapsto> value)) = dom ?f - {k0}"
    using assms(2,4) by auto
  have "k0 \<in> dom ?f" using assms(3) by auto
  then have "card (dom ?f - {k0}) + 1 = card (dom ?f)"
    using card_Suc_Diff1[OF finite_dom_map_of, of k0 "forwardMap this"] by simp
  then have "card (dom (?f(k0 := None, key \<mapsto> value))) + 1 = card (dom ?f)"
    by (simp only: dm)
  moreover have "Map_wf (forwardMap this)" "Map_wf (forwardMap (set_bm this key value))"
    using w wf_set_bm[OF w, of key "value"] by (simp_all add: wf_bm_def)
  ultimately have "card (dom (map_of (forwardMap (set_bm this key value)))) + 1 =
                   card (dom ?f) \<and> Map_wf (forwardMap this) \<and>
                   Map_wf (forwardMap (set_bm this key value))"
    by (simp only: f' simp_thms)
  then have "size_bm (set_bm this key value) + 1 = size_bm this"
    by (simp add: size_bm_def Map_size_card)
  then show ?thesis
    using assms(4) ne by (simp add: get_bm_def getReverse_def has_bm_def hasReverse_def
        Map_get_def Map_has_def f' r')
qed

text \<open>
  What a lookup tells about the entries: of a native map in general, and of the reverse
  map about the forward entries in a linked state.
\<close>

lemma Map_has_dom: "Map_has m a = (a \<in> fst ` set m)"
  by (simp add: Map_has_def map_of_eq_None_iff)

lemma Map_get_defined_wf:
  assumes "Map_wf m" "v \<noteq> Undefined"
  shows "(Map_get m a = v) = ((a, v) \<in> set m)"
proof -
  have "(map_of m a = Some v) = ((a, v) \<in> set m)"
    using assms(1) unfolding Map_wf_def by (rule map_of_eq_Some_iff)
  moreover have "(Map_get m a = v) = (map_of m a = Some v)"
    using assms(2) by (cases "map_of m a") (auto simp: Map_get_def)
  ultimately show ?thesis by simp
qed

lemma Map_get_undefined_wf:
  assumes "Map_wf m"
  shows "(Map_get m a = Undefined) = (\<not> Map_has m a \<or> (a, Undefined) \<in> set m)"
proof -
  have "(map_of m a = Some Undefined) = ((a, Undefined) \<in> set m)"
    using assms unfolding Map_wf_def by (rule map_of_eq_Some_iff)
  moreover have "(Map_get m a = Undefined) = (map_of m a = None \<or> map_of m a = Some Undefined)"
    by (cases "map_of m a") (auto simp: Map_get_def)
  ultimately show ?thesis by (simp add: Map_has_def)
qed

lemma linked_getReverse_defined:
  assumes "linked this" "k \<noteq> Undefined"
  shows "(getReverse this value = k) = ((k, value) \<in> set (forwardMap this))"
proof -
  have wf: "Map_wf (forwardMap this)" "Map_wf (reverseMap this)"
    and i: "\<And>k v. (map_of (forwardMap this) k = Some v) = (map_of (reverseMap this) v = Some k)"
    using assms(1) by (simp_all add: linked_def wf_bm_def)
  have "(getReverse this value = k) = ((value, k) \<in> set (reverseMap this))"
    unfolding getReverse_def by (rule Map_get_defined_wf[OF wf(2) assms(2)])
  also have "\<dots> = (map_of (reverseMap this) value = Some k)"
    using wf(2) by (simp add: Map_wf_def)
  also have "\<dots> = (map_of (forwardMap this) k = Some value)" by (simp add: i)
  also have "\<dots> = ((k, value) \<in> set (forwardMap this))"
    using wf(1) by (simp add: Map_wf_def)
  finally show ?thesis .
qed

lemma linked_hasReverse:
  assumes "linked this"
  shows "hasReverse this value = (value \<in> snd ` set (forwardMap this))"
proof -
  have wf: "Map_wf (forwardMap this)"
    and i: "\<And>k v. (map_of (reverseMap this) v = Some k) = (map_of (forwardMap this) k = Some v)"
    using assms by (simp_all add: linked_def wf_bm_def)
  have m: "\<And>k. (map_of (forwardMap this) k = Some value) = ((k, value) \<in> set (forwardMap this))"
    using wf by (simp add: Map_wf_def)
  have "hasReverse this value = (\<exists>k. map_of (reverseMap this) value = Some k)"
    by (simp add: hasReverse_def Map_has_def)
  also have "\<dots> = (\<exists>k. (k, value) \<in> set (forwardMap this))" by (simp only: i m)
  also have "\<dots> = (value \<in> snd ` set (forwardMap this))" by force
  finally show ?thesis .
qed

lemma linked_getReverse_undefined:
  assumes "linked this"
  shows "(getReverse this value = Undefined) = (\<not> hasReverse this value)"
proof -
  have i: "\<And>k v. (map_of (reverseMap this) v = Some k) = (map_of (forwardMap this) k = Some v)"
    and u: "map_of (forwardMap this) Undefined = None"
    using assms by (simp_all add: linked_def)
  have "map_of (reverseMap this) value \<noteq> Some Undefined" using i u by simp
  then show ?thesis
    by (cases "map_of (reverseMap this) value") (auto simp: getReverse_def hasReverse_def Map_get_def Map_has_def)
qed

section \<open>The claims\<close>

text \<open>
  C1. Starting from an empty container, after any finite sequence of \<open>set\<close>, \<open>delete\<close>,
  \<open>deleteReverse\<close> and \<open>clear\<close> the forward and the reverse mapping are exact inverses
  of each other (I1). The source does not keep this when a value is \<open>undefined\<close>:
  \<open>set("a", undefined); set("a", 1)\<close> reads the old value of \<open>"a"\<close> as \<open>undefined\<close>,
  takes the key for new and leaves the reverse entry \<open>undefined \<mapsto> "a"\<close> behind, so
  that \<open>getReverse(undefined)\<close> answers \<open>"a"\<close> while \<open>get("a")\<close> answers \<open>1\<close>.
\<close>

theorem stale_reverse_entry_after_undefined_value:
  "run (empty_bm :: (string, nat) BidirectionalMap)
       [Set (Defined ''a'') Undefined, Set (Defined ''a'') (Defined 1)] =
     \<lparr>forwardMap = [(Defined ''a'', Defined 1)],
      reverseMap = [(Undefined, Defined ''a''), (Defined 1, Defined ''a'')]\<rparr> \<and>
   \<not> inverse_maps (run (empty_bm :: (string, nat) BidirectionalMap)
       [Set (Defined ''a'') Undefined, Set (Defined ''a'') (Defined 1)])"
  by (simp add: bm_defs inverse_maps_def)

text \<open>
  C2. For any pair \<open>(k, v)\<close> that has been inserted, \<open>delete(k)\<close> returns true and
  afterwards \<open>get(k)\<close> and \<open>getReverse(v)\<close> are absent; a second \<open>delete(k)\<close> returns
  false. The source does not do this for a pair whose value is \<open>undefined\<close>: after
  \<open>set("a", undefined)\<close> the call \<open>delete("a")\<close> returns false and removes nothing, the
  key is still there (\<open>has("a")\<close>) and \<open>getReverse(undefined)\<close> still answers \<open>"a"\<close>.
\<close>

theorem delete_refuses_undefined_value:
  "delete_bm (set_bm (empty_bm :: (string, nat) BidirectionalMap) (Defined ''a'') Undefined)
       (Defined ''a'') =
     (False, \<lparr>forwardMap = [(Defined ''a'', Undefined)],
              reverseMap = [(Undefined, Defined ''a'')]\<rparr>) \<and>
   has_bm (snd (delete_bm (set_bm (empty_bm :: (string, nat) BidirectionalMap)
       (Defined ''a'') Undefined) (Defined ''a''))) (Defined ''a'') \<and>
   getReverse (snd (delete_bm (set_bm (empty_bm :: (string, nat) BidirectionalMap)
       (Defined ''a'') Undefined) (Defined ''a''))) Undefined = Defined ''a''"
  by (simp add: bm_defs)

text \<open>
  C3. Absence is communicated through a marker distinct from every data value, so that
  the results of \<open>get\<close>, \<open>getReverse\<close> and the membership operations stay unambiguous
  for a key or value equal to the sentinel. The source has no such marker: \<open>get\<close> and
  \<open>getReverse\<close> return \<open>undefined\<close> for absence, as their documentation says, and
  \<open>undefined\<close> can be stored. Two containers, one holding the key \<open>"a"\<close> and one not,
  give the same answer to \<open>get("a")\<close>.
\<close>

theorem get_undefined_ambiguous:
  "get_bm (set_bm (empty_bm :: (string, nat) BidirectionalMap) (Defined ''a'') Undefined)
       (Defined ''a'') =
     get_bm (empty_bm :: (string, nat) BidirectionalMap) (Defined ''a'') \<and>
   has_bm (set_bm (empty_bm :: (string, nat) BidirectionalMap) (Defined ''a'') Undefined)
       (Defined ''a'') \<and>
   \<not> has_bm (empty_bm :: (string, nat) BidirectionalMap) (Defined ''a'')"
  by (simp add: bm_defs)

text \<open>
  C3, as the source has it: \<open>get\<close> and \<open>getReverse\<close> signal absence with the data
  value \<open>undefined\<close>, which can also be stored. The entries of the container are those
  of the forward map. In every state, \<open>get(k)\<close> is \<open>undefined\<close> exactly when \<open>k\<close> has
  no entry or is stored with \<open>undefined\<close>; for \<open>v\<close> other than \<open>undefined\<close>, \<open>get(k)\<close>
  is \<open>v\<close> exactly when the entry \<open>(k, v)\<close> is stored; \<open>has(k)\<close> holds exactly when \<open>k\<close>
  has an entry, \<open>undefined\<close> included. In every state reached from the empty container
  by calls that set no \<open>undefined\<close> key or value, the reverse lookups are exact as
  well: for \<open>k\<close> other than \<open>undefined\<close>, \<open>getReverse(v)\<close> is \<open>k\<close> exactly when the entry
  \<open>(k, v)\<close> is stored; \<open>getReverse(v)\<close> is \<open>undefined\<close> exactly when no entry has the
  value \<open>v\<close>; \<open>hasReverse(v)\<close> holds exactly when some entry has the value \<open>v\<close>.
\<close>

theorem lookup_absence_sentinel:
  "(wf_bm this \<longrightarrow>
      (get_bm this key = Undefined) =
        (\<not> has_bm this key \<or> (key, Undefined) \<in> set (forwardMap this)) \<and>
      (v \<noteq> Undefined \<longrightarrow> (get_bm this key = v) = ((key, v) \<in> set (forwardMap this))) \<and>
      has_bm this key = (key \<in> fst ` set (forwardMap this))) \<and>
   (list_all defined_operation xs \<longrightarrow>
      (k \<noteq> Undefined \<longrightarrow>
         (getReverse (run empty_bm xs) value = k) =
           ((k, value) \<in> set (forwardMap (run empty_bm xs)))) \<and>
      (getReverse (run empty_bm xs) value = Undefined) =
        (value \<notin> snd ` set (forwardMap (run empty_bm xs))) \<and>
      hasReverse (run empty_bm xs) value =
        (value \<in> snd ` set (forwardMap (run empty_bm xs))))"
proof (intro conjI impI)
  assume "wf_bm this"
  then have wf: "Map_wf (forwardMap this)" by (simp add: wf_bm_def)
  show "(get_bm this key = Undefined) =
          (\<not> has_bm this key \<or> (key, Undefined) \<in> set (forwardMap this))"
    unfolding get_bm_def has_bm_def by (rule Map_get_undefined_wf[OF wf])
  show "has_bm this key = (key \<in> fst ` set (forwardMap this))"
    unfolding has_bm_def by (rule Map_has_dom)
  show "(get_bm this key = v) = ((key, v) \<in> set (forwardMap this))" if "v \<noteq> Undefined"
    unfolding get_bm_def by (rule Map_get_defined_wf[OF wf that])
next
  assume "list_all defined_operation xs"
  with linked_empty have l: "linked (run empty_bm xs)" by (rule linked_run)
  show "hasReverse (run empty_bm xs) value = (value \<in> snd ` set (forwardMap (run empty_bm xs)))"
    by (rule linked_hasReverse[OF l])
  show "(getReverse (run empty_bm xs) value = Undefined) =
          (value \<notin> snd ` set (forwardMap (run empty_bm xs)))"
    by (simp only: linked_getReverse_undefined[OF l] linked_hasReverse[OF l])
  show "(getReverse (run empty_bm xs) value = k) =
          ((k, value) \<in> set (forwardMap (run empty_bm xs)))" if "k \<noteq> Undefined"
    by (rule linked_getReverse_defined[OF l that])
qed

theorem lookup_absence_sentinel_witness:
  "wf_bm (run (empty_bm :: (string, nat) BidirectionalMap)
       [Set (Defined ''a'') Undefined, Set (Defined ''b'') (Defined 1)]) \<and>
   Defined (1::nat) \<noteq> Undefined \<and>
   list_all defined_operation
       [Set (Defined ''a'') (Defined (1::nat)), Set (Defined ''b'') (Defined 2),
        Set (Defined ''a'') (Defined 2)] \<and>
   Defined ''a'' \<noteq> (Undefined :: string jsval) \<and>
   get_bm (run (empty_bm :: (string, nat) BidirectionalMap)
       [Set (Defined ''a'') Undefined, Set (Defined ''b'') (Defined 1)]) (Defined ''b'') =
     Defined 1 \<and>
   (Defined ''b'', Defined 1) \<in> set (forwardMap (run (empty_bm :: (string, nat) BidirectionalMap)
       [Set (Defined ''a'') Undefined, Set (Defined ''b'') (Defined 1)])) \<and>
   getReverse (run (empty_bm :: (string, nat) BidirectionalMap)
       [Set (Defined ''a'') (Defined 1), Set (Defined ''b'') (Defined 2),
        Set (Defined ''a'') (Defined 2)]) (Defined 2) = Defined ''a'' \<and>
   (Defined ''a'', Defined 2) \<in> set (forwardMap (run (empty_bm :: (string, nat) BidirectionalMap)
       [Set (Defined ''a'') (Defined 1), Set (Defined ''b'') (Defined 2),
        Set (Defined ''a'') (Defined 2)])) \<and>
   hasReverse (run (empty_bm :: (string, nat) BidirectionalMap)
       [Set (Defined ''a'') (Defined 1), Set (Defined ''b'') (Defined 2),
        Set (Defined ''a'') (Defined 2)]) (Defined 2)"
  using lookup_absence_sentinel
          [of "run (empty_bm :: (string, nat) BidirectionalMap)
                 [Set (Defined ''a'') Undefined, Set (Defined ''b'') (Defined 1)]"
              "Defined ''b''" "Defined 1"
              "[Set (Defined ''a'') (Defined (1::nat)), Set (Defined ''b'') (Defined 2),
                Set (Defined ''a'') (Defined 2)]"
              "Defined ''a''" "Defined 2"]
  by (simp add: bm_defs wf_bm_def Map_wf_def)

text \<open>
  C4. On an empty container \<open>set("a", 1); set("b", 2); set("a", 2)\<close> results in size 1
  with \<open>get("a") = 2\<close>, \<open>getReverse(2) = "a"\<close> and \<open>getReverse(1)\<close> absent: the third
  call collides with one entry on its key and with another on its value, evicts both and
  leaves one entry where there were two.
\<close>

theorem double_collision_eviction:
  "size_bm (run (empty_bm :: (string, nat) BidirectionalMap)
       [Set (Defined ''a'') (Defined 1), Set (Defined ''b'') (Defined 2)]) = 2 \<and>
   run (empty_bm :: (string, nat) BidirectionalMap)
       [Set (Defined ''a'') (Defined 1), Set (Defined ''b'') (Defined 2),
        Set (Defined ''a'') (Defined 2)] =
     \<lparr>forwardMap = [(Defined ''a'', Defined 2)], reverseMap = [(Defined 2, Defined ''a'')]\<rparr> \<and>
   size_bm (run (empty_bm :: (string, nat) BidirectionalMap)
       [Set (Defined ''a'') (Defined 1), Set (Defined ''b'') (Defined 2),
        Set (Defined ''a'') (Defined 2)]) = 1 \<and>
   get_bm (run (empty_bm :: (string, nat) BidirectionalMap)
       [Set (Defined ''a'') (Defined 1), Set (Defined ''b'') (Defined 2),
        Set (Defined ''a'') (Defined 2)]) (Defined ''a'') = Defined 2 \<and>
   getReverse (run (empty_bm :: (string, nat) BidirectionalMap)
       [Set (Defined ''a'') (Defined 1), Set (Defined ''b'') (Defined 2),
        Set (Defined ''a'') (Defined 2)]) (Defined 2) = Defined ''a'' \<and>
   getReverse (run (empty_bm :: (string, nat) BidirectionalMap)
       [Set (Defined ''a'') (Defined 1), Set (Defined ''b'') (Defined 2),
        Set (Defined ''a'') (Defined 2)]) (Defined 1) = Undefined \<and>
   \<not> hasReverse (run (empty_bm :: (string, nat) BidirectionalMap)
       [Set (Defined ''a'') (Defined 1), Set (Defined ''b'') (Defined 2),
        Set (Defined ''a'') (Defined 2)]) (Defined 1) \<and>
   \<not> has_bm (run (empty_bm :: (string, nat) BidirectionalMap)
       [Set (Defined ''a'') (Defined 1), Set (Defined ''b'') (Defined 2),
        Set (Defined ''a'') (Defined 2)]) (Defined ''b'')"
  by (simp add: bm_defs)

text \<open>
  C5. After every public operation (construct, \<open>set\<close>, \<open>delete\<close>, \<open>deleteReverse\<close>,
  \<open>clear\<close>) the forward mapping, the reverse mapping and the reported size count the
  same number of entries (I3). The source does not keep this when a value is
  \<open>undefined\<close>: constructed from \<open>[["a", undefined], ["a", 1]]\<close> the container reports
  size 1 and its reverse map holds 2 entries.
\<close>

theorem sizes_disagree_after_undefined_value:
  "size_bm (constructor (Some [(Defined ''a'', Undefined), (Defined ''a'', Defined (1::nat))])) = 1 \<and>
   Map_size (forwardMap
     (constructor (Some [(Defined ''a'', Undefined), (Defined ''a'', Defined (1::nat))]))) = 1 \<and>
   Map_size (reverseMap
     (constructor (Some [(Defined ''a'', Undefined), (Defined ''a'', Defined (1::nat))]))) = 2 \<and>
   \<not> sizes_agree
     (constructor (Some [(Defined ''a'', Undefined), (Defined ''a'', Defined (1::nat))]))"
  by (simp add: constructor_def sizes_agree_def bm_defs)

text \<open>
  C6. For any two distinct keys \<open>k1\<close>, \<open>k2\<close> and any value \<open>v\<close>,
  \<open>set(k1, v); set(k2, v)\<close> on an empty container results in size 1 with
  \<open>get(k2) = v\<close>, \<open>get(k1)\<close> absent and \<open>getReverse(v) = k2\<close>. The source does not do
  this when \<open>k1\<close> is \<open>undefined\<close>: \<open>set(undefined, 1); set("b", 1)\<close> reads the old key
  of \<open>1\<close> as \<open>undefined\<close>, takes the value for new and keeps the entry of \<open>k1\<close>.
\<close>

theorem undefined_key_not_evicted:
  "set_bm (set_bm (empty_bm :: (string, nat) BidirectionalMap) Undefined (Defined 1))
       (Defined ''b'') (Defined 1) =
     \<lparr>forwardMap = [(Undefined, Defined 1), (Defined ''b'', Defined 1)],
      reverseMap = [(Defined 1, Defined ''b'')]\<rparr> \<and>
   size_bm (set_bm (set_bm (empty_bm :: (string, nat) BidirectionalMap) Undefined (Defined 1))
       (Defined ''b'') (Defined 1)) = 2 \<and>
   get_bm (set_bm (set_bm (empty_bm :: (string, nat) BidirectionalMap) Undefined (Defined 1))
       (Defined ''b'') (Defined 1)) Undefined = Defined 1"
  by (simp add: bm_defs)

text \<open>
  C7. For any inserted pair \<open>(k, v)\<close>, \<open>deleteReverse(v)\<close> removes the entry that
  \<open>delete(k)\<close> would remove: the first call returns true, afterwards \<open>get(k)\<close> and
  \<open>getReverse(v)\<close> are absent, and every later call returns false. The source does not
  do this for a pair whose key is \<open>undefined\<close>: after \<open>set(undefined, 1)\<close> the call
  \<open>deleteReverse(1)\<close> returns false and removes nothing, where \<open>delete(undefined)\<close>
  returns true and empties the container.
\<close>

theorem deleteReverse_refuses_undefined_key:
  "deleteReverse (set_bm (empty_bm :: (string, nat) BidirectionalMap) Undefined (Defined 1))
       (Defined 1) =
     (False, \<lparr>forwardMap = [(Undefined, Defined 1)], reverseMap = [(Defined 1, Undefined)]\<rparr>) \<and>
   hasReverse (snd (deleteReverse
       (set_bm (empty_bm :: (string, nat) BidirectionalMap) Undefined (Defined 1)) (Defined 1)))
       (Defined 1) \<and>
   get_bm (snd (deleteReverse
       (set_bm (empty_bm :: (string, nat) BidirectionalMap) Undefined (Defined 1)) (Defined 1)))
       Undefined = Defined 1 \<and>
   delete_bm (set_bm (empty_bm :: (string, nat) BidirectionalMap) Undefined (Defined 1))
       Undefined = (True, empty_bm)"
  by (simp add: bm_defs)

text \<open>
  C8. For every finite ordered sequence of pairs, constructing the container from the
  sequence yields the same state (forward entries, reverse entries, size) as
  constructing an empty container and calling \<open>set\<close> for each pair in order.
\<close>

theorem constructor_set_each:
  "constructor (Some pairs) = set_each (constructor None) pairs \<and>
   forwardMap (constructor (Some pairs)) = forwardMap (set_each (constructor None) pairs) \<and>
   reverseMap (constructor (Some pairs)) = reverseMap (set_each (constructor None) pairs) \<and>
   size_bm (constructor (Some pairs)) = size_bm (set_each (constructor None) pairs)"
proof -
  have "constructor_loop this pairs = set_each this pairs" for this :: "('a, 'b) BidirectionalMap"
    by (induction pairs arbitrary: this) (auto simp: set_each_def)
  then show ?thesis by (simp add: constructor_def)
qed

text \<open>
  C9. In every container state in which a key \<open>k\<close> is present in the forward mapping
  with the value \<open>undefined\<close>, \<open>delete(k)\<close> returns false and leaves both mappings
  unchanged, although the entry exists and \<open>has(k)\<close> is true.
\<close>

theorem delete_undefined_value_noop:
  assumes "map_of (forwardMap this) key = Some Undefined"
  shows "delete_bm this key = (False, this) \<and> has_bm this key \<and>
         forwardMap (snd (delete_bm this key)) = forwardMap this \<and>
         reverseMap (snd (delete_bm this key)) = reverseMap this"
  using assms by (simp add: delete_bm_def has_bm_def Map_get_def Map_has_def)

theorem delete_undefined_value_noop_witness:
  "map_of (forwardMap \<lparr>forwardMap = [(Defined ''a'', Defined (1::nat)), (Defined ''b'', Undefined)],
                       reverseMap = [(Defined 1, Defined ''a''), (Undefined, Defined ''b'')]\<rparr>)
       (Defined ''b'') = Some Undefined \<and>
   delete_bm \<lparr>forwardMap = [(Defined ''a'', Defined (1::nat)), (Defined ''b'', Undefined)],
              reverseMap = [(Defined 1, Defined ''a''), (Undefined, Defined ''b'')]\<rparr>
       (Defined ''b'') =
     (False, \<lparr>forwardMap = [(Defined ''a'', Defined 1), (Defined ''b'', Undefined)],
              reverseMap = [(Defined 1, Defined ''a''), (Undefined, Defined ''b'')]\<rparr>) \<and>
   has_bm \<lparr>forwardMap = [(Defined ''a'', Defined (1::nat)), (Defined ''b'', Undefined)],
           reverseMap = [(Defined 1, Defined ''a''), (Undefined, Defined ''b'')]\<rparr>
       (Defined ''b'')"
  using delete_undefined_value_noop
          [of "\<lparr>forwardMap = [(Defined ''a'', Defined (1::nat)), (Defined ''b'', Undefined)],
                reverseMap = [(Defined 1, Defined ''a''), (Undefined, Defined ''b'')]\<rparr>"
              "Defined ''b''"]
  by simp

text \<open>
  C10. For every key and value other than \<open>undefined\<close> and every container state,
  \<open>set(k, v)\<close> called twice in a row leaves the container as one call does: the same
  forward entries (in the same order), the same reverse entries and the same size. The
  state is any pair of native maps, each holding a key at most once. The reverse
  entries are compared as a set: the second call removes the reverse entry of \<open>v\<close>
  and sets it again, which moves it to the end of the reverse map's own order.
\<close>

theorem set_idempotent:
  assumes "wf_bm this" "key \<noteq> Undefined" "value \<noteq> Undefined"
  shows "forwardMap (set_bm (set_bm this key value) key value) =
           forwardMap (set_bm this key value) \<and>
         set (reverseMap (set_bm (set_bm this key value) key value)) =
           set (reverseMap (set_bm this key value)) \<and>
         Map_size (reverseMap (set_bm (set_bm this key value) key value)) =
           Map_size (reverseMap (set_bm this key value)) \<and>
         size_bm (set_bm (set_bm this key value) key value) = size_bm (set_bm this key value)"
proof -
  let ?s = "set_bm this key value"
  have w: "wf_bm ?s" using assms(1) by (rule wf_set_bm)
  have f: "map_of (forwardMap ?s) key = Some value"
    and r: "map_of (reverseMap ?s) value = Some key"
    using set_bm_lookup[of this key "value"] by simp_all
  have d: "distinct (map fst (reverseMap ?s))" using w by (simp add: wf_bm_def Map_wf_def)
  have g: "Map_get (forwardMap ?s) key = value" using f by (simp add: Map_get_def)
  have n: "Map_get (AList.delete value (reverseMap ?s)) value = Undefined"
    by (simp add: Map_get_def delete_conv')
  have rev: "reverseMap (set_bm ?s key value) =
             AList.update value key (AList.delete value (reverseMap ?s))"
    using assms(3) g n by (simp add: set_bm_def[of ?s] Let_def Map_set_def Map_delete_def)
  have fwd: "forwardMap (set_bm ?s key value) = forwardMap ?s"
    using assms(3) g n
    by (simp add: set_bm_def[of ?s] Let_def Map_set_def Map_delete_def update_triv[OF f])
  have "set (reverseMap (set_bm ?s key value)) = set (reverseMap ?s)"
    unfolding rev by (rule set_reinsert[OF d r])
  moreover have "length (reverseMap (set_bm ?s key value)) = length (reverseMap ?s)"
    unfolding rev by (rule length_reinsert[OF d r])
  ultimately show ?thesis using fwd by (simp add: size_bm_def Map_size_def)
qed

theorem set_idempotent_witness:
  "wf_bm \<lparr>forwardMap = [(Defined ''a'', Defined (1::nat)), (Defined ''b'', Defined 2)],
          reverseMap = [(Defined 1, Defined ''a''), (Defined 2, Defined ''b'')]\<rparr> \<and>
   Defined ''c'' \<noteq> (Undefined :: string jsval) \<and> Defined (1::nat) \<noteq> Undefined \<and>
   forwardMap (set_bm (set_bm
       \<lparr>forwardMap = [(Defined ''a'', Defined (1::nat)), (Defined ''b'', Defined 2)],
        reverseMap = [(Defined 1, Defined ''a''), (Defined 2, Defined ''b'')]\<rparr>
       (Defined ''c'') (Defined 1)) (Defined ''c'') (Defined 1)) =
     [(Defined ''b'', Defined 2), (Defined ''c'', Defined 1)] \<and>
   set (reverseMap (set_bm (set_bm
       \<lparr>forwardMap = [(Defined ''a'', Defined (1::nat)), (Defined ''b'', Defined 2)],
        reverseMap = [(Defined 1, Defined ''a''), (Defined 2, Defined ''b'')]\<rparr>
       (Defined ''c'') (Defined 1)) (Defined ''c'') (Defined 1))) =
     {(Defined 1, Defined ''c''), (Defined 2, Defined ''b'')} \<and>
   size_bm (set_bm (set_bm
       \<lparr>forwardMap = [(Defined ''a'', Defined (1::nat)), (Defined ''b'', Defined 2)],
        reverseMap = [(Defined 1, Defined ''a''), (Defined 2, Defined ''b'')]\<rparr>
       (Defined ''c'') (Defined 1)) (Defined ''c'') (Defined 1)) = 2"
  using set_idempotent
          [of "\<lparr>forwardMap = [(Defined ''a'', Defined (1::nat)), (Defined ''b'', Defined 2)],
                reverseMap = [(Defined 1, Defined ''a''), (Defined 2, Defined ''b'')]\<rparr>"
              "Defined ''c''" "Defined 1"]
  by (auto simp add: bm_defs wf_bm_def Map_wf_def)

end
